theory Spec2Isabelle
  imports Complex_Main "HOL-Library.AList" "HOL-Library.Char_ord" "HOL-Library.List_Lexorder"
begin

section \<open>Data model (src/domain/types.ts)\<close>

text \<open>
  A JavaScript \<open>number\<close> is an IEEE double: a finite value, one of the two infinities, or
  NaN. Finite values are embedded as reals; where the source performs floating-point
  arithmetic the result is passed through a rounding operator \<open>rnd\<close>, which is a parameter
  of the scoring functions (it maps the exact real result to the number the machine
  stores, and may overflow to an infinity). Counters and array lengths are integers that
  doubles represent exactly, and are modelled as \<open>nat\<close>/\<open>int\<close>. The two signed zeros are
  identified: the code never distinguishes them.
\<close>

datatype jsnum = Fin real | PosInf | NegInf | NaN

type_synonym TaskId = string

record Task =
  taskId :: TaskId
  title :: string
  points :: jsnum
  isCore :: bool
  isActive :: bool

text \<open>
  A date is a \<open>DayISO\<close>, of the template type \<open>`${number}-${number}-${number}`\<close>. Every
  such string contains a hyphen, so it is not an array index and not the name of a member
  that objects or arrays inherit: a lookup \<open>map[date]\<close> finds an own property or nothing,
  and an assignment \<open>map[date] = ...\<close> sets an own property.
\<close>

type_synonym DayISO = string


text \<open>
  \<open>checks\<close> is a JavaScript object used as a dictionary; it is an association list in
  property order. Optional fields (\<open>note?\<close>, here \<open>noteText\<close>; \<open>createdAt?\<close>, ...) are \<open>option\<close>s, with
  \<open>None\<close> for \<open>undefined\<close>.
\<close>

record DayLog =
  date :: DayISO
  checks :: "(TaskId \<times> bool) list"
  noteText :: "string option"
  excludeFromStats :: "bool option"
  createdAt :: "int option"
  updatedAt :: "int option"

section \<open>Scoring (src/domain/scoring.ts)\<close>

datatype Rank = A | S | SS | SSS

record ScoreResult =
  rawScore :: jsnum
  coreTotal :: nat
  coreDone :: nat
  coreIncompleteCount :: int
  showRank :: bool
  rank :: "Rank option"

text \<open>
  \<open>checks[t.id]\<close> used as a condition. \<open>checks\<close> is a plain object, so the lookup finds an
  own property or, when there is none, a member inherited from \<open>Object.prototype\<close>. The
  inherited members are functions, and \<open>__proto__\<close> yields the prototype object: all of
  them count as true in a condition.
\<close>

definition objectPrototypeNames :: "string list" where
  "objectPrototypeNames =
     [''constructor'', ''hasOwnProperty'', ''isPrototypeOf'', ''propertyIsEnumerable'',
      ''toLocaleString'', ''toString'', ''valueOf'', ''__proto__'', ''__defineGetter__'',
      ''__defineSetter__'', ''__lookupGetter__'', ''__lookupSetter__'']"

definition isChecked :: "(TaskId \<times> bool) list \<Rightarrow> TaskId \<Rightarrow> bool" where
  "isChecked cs i = (case map_of cs i of Some b \<Rightarrow> b | None \<Rightarrow> i \<in> set objectPrototypeNames)"

text \<open>The comparison \<open>x >= c\<close> of a number with a finite constant; false for NaN.\<close>

fun js_ge :: "jsnum \<Rightarrow> real \<Rightarrow> bool" where
  "js_ge (Fin x) c = (c \<le> x)"
| "js_ge PosInf c = True"
| "js_ge NegInf c = False"
| "js_ge NaN c = False"

text \<open>Floating-point addition and multiplication; finite results are rounded by \<open>rnd\<close>.\<close>

fun js_add :: "(real \<Rightarrow> jsnum) \<Rightarrow> jsnum \<Rightarrow> jsnum \<Rightarrow> jsnum" where
  "js_add rnd (Fin x) (Fin y) = rnd (x + y)"
| "js_add rnd NaN b = NaN"
| "js_add rnd a NaN = NaN"
| "js_add rnd PosInf NegInf = NaN"
| "js_add rnd NegInf PosInf = NaN"
| "js_add rnd PosInf b = PosInf"
| "js_add rnd a PosInf = PosInf"
| "js_add rnd NegInf b = NegInf"
| "js_add rnd a NegInf = NegInf"

fun js_mul :: "(real \<Rightarrow> jsnum) \<Rightarrow> jsnum \<Rightarrow> jsnum \<Rightarrow> jsnum" where
  "js_mul rnd (Fin x) (Fin y) = rnd (x * y)"
| "js_mul rnd NaN b = NaN"
| "js_mul rnd a NaN = NaN"
| "js_mul rnd (Fin x) PosInf = (if x = 0 then NaN else if 0 < x then PosInf else NegInf)"
| "js_mul rnd (Fin x) NegInf = (if x = 0 then NaN else if 0 < x then NegInf else PosInf)"
| "js_mul rnd PosInf (Fin y) = (if y = 0 then NaN else if 0 < y then PosInf else NegInf)"
| "js_mul rnd NegInf (Fin y) = (if y = 0 then NaN else if 0 < y then NegInf else PosInf)"
| "js_mul rnd PosInf PosInf = PosInf"
| "js_mul rnd NegInf NegInf = PosInf"
| "js_mul rnd PosInf NegInf = NegInf"
| "js_mul rnd NegInf PosInf = NegInf"

definition activeTasks :: "Task list \<Rightarrow> Task list" where
  "activeTasks tasks = filter (\<lambda>t. isActive t) tasks"

definition coreTasks :: "Task list \<Rightarrow> Task list" where
  "coreTasks tasks = filter (\<lambda>t. isActive t \<and> isCore t) tasks"

definition bonusTasks :: "Task list \<Rightarrow> Task list" where
  "bonusTasks tasks = filter (\<lambda>t. isActive t \<and> \<not> isCore t) tasks"

text \<open>The two \<open>for (const t of tasks)\<close> loops, as left folds over the accumulator.\<close>

definition countDone :: "Task list \<Rightarrow> (TaskId \<times> bool) list \<Rightarrow> nat" where
  "countDone tasks cs = fold (\<lambda>t n. if isChecked cs (taskId t) then n + 1 else n) tasks 0"

definition sumBonusPoints :: "(real \<Rightarrow> jsnum) \<Rightarrow> Task list \<Rightarrow> (TaskId \<times> bool) list \<Rightarrow> jsnum" where
  "sumBonusPoints rnd tasks cs =
     fold (\<lambda>t total. if isChecked cs (taskId t) then js_add rnd total (points t) else total)
       tasks (Fin 0)"

definition calcRank :: "jsnum \<Rightarrow> Rank" where
  "calcRank score =
     (if js_ge score 150 then SSS
      else if js_ge score 120 then SS
      else if js_ge score 101 then S
      else A)"

definition calcScore :: "(real \<Rightarrow> jsnum) \<Rightarrow> Task list \<Rightarrow> DayLog \<Rightarrow> ScoreResult" where
  "calcScore rnd tasks dayLog =
     (let actives = activeTasks tasks;
          cores = coreTasks actives;
          bonuses = bonusTasks actives;
          total = length cores;
          coreUnit = (if total > 0 then rnd (100 / real total) else Fin 0);
          done = countDone cores (checks dayLog);
          incomplete = int total - int done;
          bonusScore = sumBonusPoints rnd bonuses (checks dayLog);
          coreScore = js_mul rnd (Fin (real done)) coreUnit;
          raw = js_add rnd coreScore bonusScore;
          sr = (total > 0 \<and> incomplete = 0)
      in \<lparr> rawScore = raw, coreTotal = total, coreDone = done,
           coreIncompleteCount = incomplete, showRank = sr,
           rank = (if sr then Some (calcRank raw) else None) \<rparr>)"


section \<open>Storage (src/infra/storage.ts, the sharded version)\<close>

text \<open>
  \<open>localStorage\<close> maps keys to strings. A stored string is represented by what the code
  can observe of it: whether it is empty, whether \<open>JSON.parse\<close> throws on it, and
  otherwise the parsed value at the type the code declares for it (\<open>Task[]\<close> or
  \<open>DayLogMap\<close>). \<open>JSON.stringify\<close> of a value is the text that parses back to it.
  The store keeps its keys in an association list, in \<open>localStorage.key(i)\<close> order.

  Typing assumptions of the embedding, taken from the declared types of the source:
  array elements are \<open>Task\<close>s, object properties are \<open>DayLog\<close>s keyed by calendar dates
  (so no property name is an array index or a name inherited from \<open>Object.prototype\<close>).
  \<open>typeof\<close> of an array is \<open>"object"\<close>, so an array stored under a day-log key passes the
  shape test of the code. Its index properties are not day logs and it has no own
  property named by a date: \<open>objectOrEmpty\<close> gives the date-named own properties of the
  parsed value, none for an array.
\<close>

type_synonym MonthISO = string
type_synonym DayLogMap = "(DayISO \<times> DayLog) list"

datatype json = JPrim | JArr "Task list" | JObj DayLogMap

datatype raw = Blank | Corrupt | Json json

record Store =
  items :: "(string \<times> raw) list"
  migratedOnce :: bool

definition KEYS_tasks :: string where
  "KEYS_tasks = ''tasks_v1''"

definition KEYS_dayLogsV1 :: string where
  "KEYS_dayLogsV1 = ''daylogs_v1''"

definition KEYS_dayLogsV1Backup :: string where
  "KEYS_dayLogsV1Backup = ''daylogs_v1_backup''"

definition V2_PREFIX :: string where
  "V2_PREFIX = ''daylogs_v2_''"

definition getItem :: "(string \<times> raw) list \<Rightarrow> string \<Rightarrow> raw option" where
  "getItem ls k = map_of ls k"

definition setItem :: "string \<Rightarrow> raw \<Rightarrow> (string \<times> raw) list \<Rightarrow> (string \<times> raw) list" where
  "setItem k v ls = AList.update k v ls"

definition removeItem :: "string \<Rightarrow> (string \<times> raw) list \<Rightarrow> (string \<times> raw) list" where
  "removeItem k ls = AList.delete k ls"

text \<open>\<open>!raw\<close> for a \<open>string | null\<close>: true for \<open>null\<close> and for the empty string.\<close>

fun falsyRaw :: "raw option \<Rightarrow> bool" where
  "falsyRaw None = True"
| "falsyRaw (Some Blank) = True"
| "falsyRaw (Some r) = False"

fun safeJsonParse :: "raw option \<Rightarrow> json option" where
  "safeJsonParse None = None"
| "safeJsonParse (Some Blank) = None"
| "safeJsonParse (Some Corrupt) = None"
| "safeJsonParse (Some (Json j)) = Some j"

definition JSON_stringify :: "json \<Rightarrow> raw" where
  "JSON_stringify j = Json j"

text \<open>\<open>data && typeof data === "object" ? data : {}\<close>, and \<open>Object.entries\<close> of the result.\<close>

fun objectOrEmpty :: "json option \<Rightarrow> DayLogMap" where
  "objectOrEmpty (Some (JObj m)) = m"
| "objectOrEmpty (Some (JArr ts)) = []"
| "objectOrEmpty (Some JPrim) = []"
| "objectOrEmpty None = []"

definition toMonthISO :: "DayISO \<Rightarrow> MonthISO" where
  "toMonthISO day = take 7 day"

definition v2Key :: "MonthISO \<Rightarrow> string" where
  "v2Key month = V2_PREFIX @ month"

definition loadMonthMap :: "MonthISO \<Rightarrow> (string \<times> raw) list \<Rightarrow> DayLogMap" where
  "loadMonthMap month ls = objectOrEmpty (safeJsonParse (getItem ls (v2Key month)))"

definition saveMonthMap :: "MonthISO \<Rightarrow> DayLogMap \<Rightarrow> (string \<times> raw) list \<Rightarrow> (string \<times> raw) list" where
  "saveMonthMap month m ls = setItem (v2Key month) (JSON_stringify (JObj m)) ls"

definition startsWith :: "string \<Rightarrow> string \<Rightarrow> bool" where
  "startsWith k p = (take (length p) k = p)"

text \<open>
  The comparator \<open>(a, b) => (a < b ? 1 : a > b ? -1 : 0)\<close> orders strings descending;
  the sorted array is the ascending sort reversed.
\<close>

definition listV2Months :: "(string \<times> raw) list \<Rightarrow> MonthISO list" where
  "listV2Months ls =
     (let months = map (drop (length V2_PREFIX))
                     (filter (\<lambda>k. k \<noteq> [] \<and> startsWith k V2_PREFIX) (map fst ls))
      in rev (sort months))"

text \<open>
  \<open>bucket[month] ??= {}; bucket[month][date] = log\<close> for one entry, and the object
  spread \<open>{ ...map, ...current }\<close>.
\<close>

definition bucketAdd :: "DayISO \<times> DayLog \<Rightarrow> (MonthISO \<times> DayLogMap) list \<Rightarrow> (MonthISO \<times> DayLogMap) list" where
  "bucketAdd e bucket =
     (let month = toMonthISO (fst e);
          cur = (case map_of bucket month of None \<Rightarrow> [] | Some m \<Rightarrow> m)
      in AList.update month (AList.update (fst e) (snd e) cur) bucket)"

definition bucketByMonth :: "DayLogMap \<Rightarrow> (MonthISO \<times> DayLogMap) list" where
  "bucketByMonth entries = fold bucketAdd entries []"

definition spread :: "DayLogMap \<Rightarrow> DayLogMap \<Rightarrow> DayLogMap" where
  "spread m current = fold (\<lambda>e acc. AList.update (fst e) (snd e) acc) current m"

definition mergeMonth :: "MonthISO \<times> DayLogMap \<Rightarrow> (string \<times> raw) list \<Rightarrow> (string \<times> raw) list" where
  "mergeMonth mm ls =
     (let current = loadMonthMap (fst mm) ls;
          merged = spread (snd mm) current
      in saveMonthMap (fst mm) merged ls)"

text \<open>
  \<open>Object.entries\<close> of an array gives its elements under the keys \<open>"0"\<close>, \<open>"1"\<close>, ...
  The elements are not day logs and are not represented in a \<open>DayLogMap\<close>; the months
  they are bucketed under (the first seven characters of the index) are.
\<close>

fun showNat :: "nat \<Rightarrow> string" where
  "showNat n =
     (if n < 10 then [''0123456789'' ! n]
      else showNat (n div 10) @ [''0123456789'' ! (n mod 10)])"

declare showNat.simps [simp del]

definition arrayIndexBucket :: "Task list \<Rightarrow> (MonthISO \<times> DayLogMap) list" where
  "arrayIndexBucket ts =
     fold (\<lambda>i bucket. AList.update (toMonthISO (showNat i)) [] bucket) [0..<length ts] []"

definition migrateV1ToV2IfNeeded :: "Store \<Rightarrow> Store" where
  "migrateV1ToV2IfNeeded st =
     (if migratedOnce st then st
      else
        let st1 = st\<lparr>migratedOnce := True\<rparr>;
            v1Raw = getItem (items st1) KEYS_dayLogsV1
        in if falsyRaw v1Raw then st1
           else case (v1Raw, safeJsonParse v1Raw) of
               (Some r, Some (JObj m)) \<Rightarrow>
                 let ls1 = (if falsyRaw (getItem (items st1) KEYS_dayLogsV1Backup)
                            then setItem KEYS_dayLogsV1Backup r (items st1) else items st1);
                     ls2 = fold mergeMonth (bucketByMonth m) ls1
                 in st1\<lparr>items := removeItem KEYS_dayLogsV1 ls2\<rparr>
             | (Some r, Some (JArr ts)) \<Rightarrow>
                 let ls1 = (if falsyRaw (getItem (items st1) KEYS_dayLogsV1Backup)
                            then setItem KEYS_dayLogsV1Backup r (items st1) else items st1);
                     ls2 = fold mergeMonth (arrayIndexBucket ts) ls1
                 in st1\<lparr>items := removeItem KEYS_dayLogsV1 ls2\<rparr>
             | _ \<Rightarrow> st1)"

subsection \<open>Tasks\<close>

fun Math_round :: "jsnum \<Rightarrow> jsnum" where
  "Math_round (Fin x) = Fin (of_int \<lfloor>x + 1 / 2\<rfloor>)"
| "Math_round PosInf = PosInf"
| "Math_round NegInf = NegInf"
| "Math_round NaN = NaN"

fun isFinite :: "jsnum \<Rightarrow> bool" where
  "isFinite (Fin x) = True"
| "isFinite PosInf = False"
| "isFinite NegInf = False"
| "isFinite NaN = False"

text \<open>\<open>Math.min(10, Math.max(1, isFinite(p) ? p : 1))\<close>.\<close>

definition clampRounded :: "jsnum \<Rightarrow> real" where
  "clampRounded p = min 10 (max 1 (if isFinite p then (case p of Fin x \<Rightarrow> x | _ \<Rightarrow> 1) else 1))"

text \<open>
  The two \<open>tasks.map\<close> passes of \<open>loadTasks\<close>. Each callback may set the captured variable
  \<open>changed\<close>; the second also increments \<open>coreCount\<close>. Both variables are threaded
  through the traversal.
  \<open>Number(t.points)\<close> is the identity on a number. \<open>Math.round\<close> rounds to the nearest
  integer, a half upwards.
\<close>

definition normalizeTask :: "Task \<Rightarrow> Task \<times> bool" where
  "normalizeTask t =
     (if isCore t then
        (if points t \<noteq> Fin 0 then (t\<lparr>points := Fin 0\<rparr>, True) else (t, False))
      else
        (let p = Math_round (points t);
             clamped = clampRounded p
         in if points t \<noteq> Fin clamped then (t\<lparr>points := Fin clamped\<rparr>, True) else (t, False)))"

fun normalizePass :: "bool \<Rightarrow> Task list \<Rightarrow> Task list \<times> bool" where
  "normalizePass changed [] = ([], changed)"
| "normalizePass changed (t # ts) =
     (case normalizeTask t of (next, c) \<Rightarrow>
        (case normalizePass (changed \<or> c) ts of (rest, changed') \<Rightarrow> (next # rest, changed')))"

fun limitPass :: "nat \<Rightarrow> bool \<Rightarrow> Task list \<Rightarrow> Task list \<times> bool" where
  "limitPass coreCount changed [] = ([], changed)"
| "limitPass coreCount changed (t # ts) =
     (if isActive t \<and> isCore t then
        (if coreCount + 1 > 5 then
           (case limitPass (coreCount + 1) True ts of
              (rest, changed') \<Rightarrow> (t\<lparr>isCore := False\<rparr> # rest, changed'))
         else
           (case limitPass (coreCount + 1) changed ts of
              (rest, changed') \<Rightarrow> (t # rest, changed')))
      else
        (case limitPass coreCount changed ts of (rest, changed') \<Rightarrow> (t # rest, changed')))"

fun arrayOrEmpty :: "json option \<Rightarrow> Task list" where
  "arrayOrEmpty (Some (JArr ts)) = ts"
| "arrayOrEmpty (Some (JObj m)) = []"
| "arrayOrEmpty (Some JPrim) = []"
| "arrayOrEmpty None = []"

definition loadTasks :: "Store \<Rightarrow> Task list \<times> Store" where
  "loadTasks st =
     (let tasks = arrayOrEmpty (safeJsonParse (getItem (items st) KEYS_tasks));
          (normalized, changed1) = normalizePass False tasks;
          (limited, changed) = limitPass 0 changed1 normalized
      in (limited,
          if changed then st\<lparr>items := setItem KEYS_tasks (JSON_stringify (JArr limited)) (items st)\<rparr>
          else st))"

definition saveTasks :: "Task list \<Rightarrow> Store \<Rightarrow> Store" where
  "saveTasks tasks st = st\<lparr>items := setItem KEYS_tasks (JSON_stringify (JArr tasks)) (items st)\<rparr>"

subsection \<open>Day logs\<close>

definition listAvailableMonths :: "Store \<Rightarrow> MonthISO list \<times> Store" where
  "listAvailableMonths st =
     (let st1 = migrateV1ToV2IfNeeded st in (listV2Months (items st1), st1))"

definition loadDayLogMapForMonth :: "MonthISO \<Rightarrow> Store \<Rightarrow> DayLogMap \<times> Store" where
  "loadDayLogMapForMonth month st =
     (let st1 = migrateV1ToV2IfNeeded st in (loadMonthMap month (items st1), st1))"






section \<open>The Today page's write path (src/pages/Today.tsx)\<close>








section \<open>Example data\<close>

definition exampleTasks :: "Task list" where
  "exampleTasks =
     [\<lparr>taskId = ''t1'', title = ''water'', points = Fin 0, isCore = True, isActive = True\<rparr>,
      \<lparr>taskId = ''t2'', title = ''walk'', points = Fin 0, isCore = True, isActive = True\<rparr>,
      \<lparr>taskId = ''t3'', title = ''read'', points = Fin 0, isCore = True, isActive = True\<rparr>,
      \<lparr>taskId = ''t4'', title = ''stretch'', points = Fin 10, isCore = False, isActive = True\<rparr>,
      \<lparr>taskId = ''t5'', title = ''tidy'', points = Fin 10, isCore = False, isActive = True\<rparr>,
      \<lparr>taskId = ''t6'', title = ''old'', points = Fin 0, isCore = True, isActive = False\<rparr>]"

definition exampleLog :: "(TaskId \<times> bool) list \<Rightarrow> DayLog" where
  "exampleLog cs = \<lparr>date = ''2024-01-15'', checks = cs, noteText = Some '''',
     excludeFromStats = Some False, createdAt = None, updatedAt = None\<rparr>"


definition emptyStore :: Store where
  "emptyStore = \<lparr>items = [], migratedOnce = False\<rparr>"

definition storeWithTasks :: "Task list \<Rightarrow> Store" where
  "storeWithTasks tasks = \<lparr>items = [(''tasks_v1'', Json (JArr tasks))], migratedOnce = False\<rparr>"

definition coreTask :: "string \<Rightarrow> Task" where
  "coreTask i = \<lparr>taskId = i, title = ''core'', points = Fin 0, isCore = True, isActive = True\<rparr>"


definition sixCoreTasks :: "Task list" where
  "sixCoreTasks = map coreTask [''a'', ''b'', ''c'', ''d'', ''e'', ''f'']"

definition legacyStore :: Store where
  "legacyStore =
     \<lparr>items = [(''daylogs_v1'',
         Json (JObj [(''2024-01-15'', exampleLog [(''t1'', True)]),
                     (''2024-02-01'', (exampleLog [(''t2'', True)])\<lparr>date := ''2024-02-01''\<rparr>)]))],
      migratedOnce = False\<rparr>"


definition legacyArrayStore :: Store where
  "legacyArrayStore =
     \<lparr>items = [(''daylogs_v1'', Json (JArr [coreTask ''a'', coreTask ''b'']))],
      migratedOnce = False\<rparr>"

section \<open>Scoring: proofs\<close>

lemma fold_count_acc:
  "fold (\<lambda>t n. if P t then n + 1 else n) ts (k::nat) = k + length (filter P ts)"
  by (induction ts arbitrary: k) simp_all

lemma countDone_filter:
  "countDone ts cs = length (filter (\<lambda>t. isChecked cs (taskId t)) ts)"
  by (simp add: countDone_def fold_count_acc)

lemma coreTasks_activeTasks: "coreTasks (activeTasks ts) = coreTasks ts"
  by (induction ts) (simp_all add: coreTasks_def activeTasks_def)


lemma length_filter_eq_iff:
  "length xs = length (filter P xs) \<longleftrightarrow> (\<forall>x\<in>set xs. P x)"
proof (induction xs)
  case Nil
  show ?case by simp
next
  case (Cons x xs)
  have le: "length (filter P xs) \<le> length xs" by (rule length_filter_le)
  show ?case
  proof (cases "P x")
    case True
    with Cons show ?thesis by simp
  next
    case False
    from le have "Suc (length xs) \<noteq> length (filter P xs)" by linarith
    with False show ?thesis by simp
  qed
qed


lemma calcScore_coreDone:
  "coreDone (calcScore rnd tasks dayLog) =
     length (filter (\<lambda>t. isChecked (checks dayLog) (taskId t)) (coreTasks tasks))"
  by (simp add: calcScore_def Let_def coreTasks_activeTasks countDone_filter)

lemma calcScore_incomplete:
  "coreIncompleteCount (calcScore rnd tasks dayLog) = 0 \<longleftrightarrow>
     (\<forall>t\<in>set (coreTasks tasks). isChecked (checks dayLog) (taskId t))"
  by (simp add: calcScore_def Let_def coreTasks_activeTasks countDone_filter
      length_filter_eq_iff)






lemma calcRank_cases:
  "(calcRank s = SSS \<longleftrightarrow> js_ge s 150) \<and>
   (calcRank s = SS \<longleftrightarrow> js_ge s 120 \<and> \<not> js_ge s 150) \<and>
   (calcRank s = S \<longleftrightarrow> js_ge s 101 \<and> \<not> js_ge s 120) \<and>
   (calcRank s = A \<longleftrightarrow> \<not> js_ge s 101)"
  by (cases s) (auto simp: calcRank_def)

lemma calcScore_rank:
  "rank (calcScore rnd tasks dayLog) =
     (if showRank (calcScore rnd tasks dayLog)
      then Some (calcRank (rawScore (calcScore rnd tasks dayLog))) else None)"
  by (simp add: calcScore_def Let_def)



lemma two_pow_53: "(10::real) ^ 15 \<le> 2 ^ 53"
  by simp







text \<open>
  Claim C2. \<open>calcRank\<close> uses inclusive lower bounds tried from the highest: at least 150
  is SSS, otherwise at least 120 is SS, otherwise at least 101 is S, otherwise A. The
  scores 100, 101, 120, 150, 151 rank A, S, SS, SSS, SSS, and whenever the rank is shown
  it is \<open>calcRank\<close> of the raw score.
\<close>

theorem calcRank_thresholds:
  "(calcRank s = SSS \<longleftrightarrow> js_ge s 150) \<and>
   (calcRank s = SS \<longleftrightarrow> js_ge s 120 \<and> \<not> js_ge s 150) \<and>
   (calcRank s = S \<longleftrightarrow> js_ge s 101 \<and> \<not> js_ge s 120) \<and>
   (calcRank s = A \<longleftrightarrow> \<not> js_ge s 101) \<and>
   map calcRank [Fin 100, Fin 101, Fin 120, Fin 150, Fin 151] = [A, S, SS, SSS, SSS] \<and>
   (showRank (calcScore rnd tasks dayLog) \<longrightarrow>
      rank (calcScore rnd tasks dayLog) = Some (calcRank (rawScore (calcScore rnd tasks dayLog))))"
  using calcRank_cases [of s] by (simp add: calcScore_rank) (simp add: calcRank_def)

theorem calcRank_thresholds_witness:
  "showRank (calcScore Fin exampleTasks (exampleLog [(''t1'', True), (''t2'', True), (''t3'', True), (''t4'', True), (''t5'', True)])) \<and>
   rawScore (calcScore Fin exampleTasks (exampleLog [(''t1'', True), (''t2'', True), (''t3'', True), (''t4'', True), (''t5'', True)])) = Fin 120 \<and>
   rank (calcScore Fin exampleTasks (exampleLog [(''t1'', True), (''t2'', True), (''t3'', True), (''t4'', True), (''t5'', True)])) = Some SS"
  using calcRank_thresholds [of "Fin 120" Fin exampleTasks "exampleLog [(''t1'', True), (''t2'', True), (''t3'', True), (''t4'', True), (''t5'', True)]"]
  by (simp add: calcScore_def Let_def activeTasks_def coreTasks_def bonusTasks_def countDone_def
      sumBonusPoints_def isChecked_def exampleTasks_def exampleLog_def calcRank_def)




section \<open>Day-log store: proofs\<close>

lemma getItem_setItem:
  "getItem (setItem k v ls) k' = (if k' = k then Some v else getItem ls k')"
  by (simp add: getItem_def setItem_def update_conv')

lemma getItem_removeItem:
  "getItem (removeItem k ls) k' = (if k' = k then None else getItem ls k')"
  by (simp add: getItem_def removeItem_def delete_conv')




lemma migrate_latched: "migratedOnce st \<Longrightarrow> migrateV1ToV2IfNeeded st = st"
  by (simp add: migrateV1ToV2IfNeeded_def)

lemma migratedOnce_migrate: "migratedOnce (migrateV1ToV2IfNeeded st)"
  by (auto simp: migrateV1ToV2IfNeeded_def Let_def split: option.splits json.splits)

lemma migrate_migrate: "migrateV1ToV2IfNeeded (migrateV1ToV2IfNeeded st) = migrateV1ToV2IfNeeded st"
  by (rule migrate_latched) (rule migratedOnce_migrate)





















subsection \<open>Compaction of empty logs\<close>































section \<open>Task registry: proofs\<close>

lemma loadTasks_six:
  "fst (loadTasks (storeWithTasks sixCoreTasks)) =
     map coreTask [''a'', ''b'', ''c'', ''d'', ''e''] @ [(coreTask ''f'')\<lparr>isCore := False\<rparr>]"
  by (simp add: loadTasks_def storeWithTasks_def sixCoreTasks_def coreTask_def getItem_def
      KEYS_tasks_def normalizeTask_def)

text \<open>
  Claim C6, at a stored list of six active core tasks. The sixth is demoted to
  \<open>isCore = False\<close> after the points pass has already treated it as a core task, so it is
  returned, and written back, as a non-core task with 0 points, outside the range 1 to 10
  that the claim and the code's own comment give for non-core tasks. Loading the written
  list once more raises it to 1 point.
\<close>

theorem loadTasks_demoted_task_keeps_zero_points:
  "fst (loadTasks (storeWithTasks sixCoreTasks)) ! 5 =
     \<lparr>taskId = ''f'', title = ''core'', points = Fin 0, isCore = False, isActive = True\<rparr> \<and>
   getItem (items (snd (loadTasks (storeWithTasks sixCoreTasks)))) ''tasks_v1'' =
     Some (Json (JArr (fst (loadTasks (storeWithTasks sixCoreTasks))))) \<and>
   points (fst (loadTasks (snd (loadTasks (storeWithTasks sixCoreTasks)))) ! 5) = Fin 1"
  by (simp add: loadTasks_def storeWithTasks_def sixCoreTasks_def coreTask_def getItem_def
      setItem_def JSON_stringify_def KEYS_tasks_def normalizeTask_def clampRounded_def)

lemma normalizePass_fst: "fst (normalizePass c ts) = map (\<lambda>t. fst (normalizeTask t)) ts"
  by (induction ts arbitrary: c) (simp_all add: split_beta)

lemma limitPass_length: "length (fst (limitPass n c ts)) = length ts"
  by (induction ts arbitrary: n c) (simp_all add: split_beta)

lemma limitPass_points: "map points (fst (limitPass n c ts)) = map points ts"
  by (induction ts arbitrary: n c) (simp_all add: split_beta)

lemma limitPass_isCore:
  "t \<in> set (fst (limitPass n c ts)) \<Longrightarrow> isCore t \<Longrightarrow> t \<in> set ts"
  by (induction ts arbitrary: n c) (auto simp: split_beta split: if_splits)

lemma limitPass_not_core:
  "i < length ts \<Longrightarrow> \<not> isCore (ts ! i) \<Longrightarrow> fst (limitPass n c ts) ! i = ts ! i"
proof (induction ts arbitrary: n c i)
  case Nil
  then show ?case by simp
next
  case (Cons t ts)
  then show ?case by (cases i) (auto simp: split_beta)
qed

lemma limitPass_core_count:
  "length (filter (\<lambda>t. isActive t \<and> isCore t) (fst (limitPass n c ts))) \<le> 5 - n"
proof (induction ts arbitrary: n c)
  case Nil
  then show ?case by simp
next
  case (Cons t ts)
  show ?case
  proof (cases "isActive t \<and> isCore t")
    case False
    then show ?thesis using Cons.IH[of n c] by (auto simp: split_beta)
  next
    case True
    show ?thesis
    proof (cases "n + 1 > 5")
      case True
      with \<open>isActive t \<and> isCore t\<close> Cons.IH[of "n + 1" True] show ?thesis
        by (auto simp: split_beta)
    next
      case False
      with \<open>isActive t \<and> isCore t\<close> Cons.IH[of "n + 1" c] show ?thesis
        by (auto simp: split_beta)
    qed
  qed
qed

lemma limitPass_first_five:
  "length (filter (\<lambda>t. isActive t \<and> isCore t) ts) + n \<le> 5 \<Longrightarrow> limitPass n c ts = (ts, c)"
  by (induction ts arbitrary: n c) (auto simp: split_beta)

lemma normalizeTask_core: "isCore t \<Longrightarrow> fst (normalizeTask t) = t\<lparr>points := Fin 0\<rparr>"
  by (simp add: normalizeTask_def)

lemma clampRounded_int:
  "\<exists>k::int. 1 \<le> k \<and> k \<le> 10 \<and> clampRounded (Math_round p) = of_int k"
proof (cases p)
  case (Fin x)
  have "min 10 (max 1 (of_int \<lfloor>x + 1 / 2\<rfloor>)) = (of_int (min 10 (max 1 \<lfloor>x + 1 / 2\<rfloor>)) :: real)"
    by (simp add: min_def max_def)
  moreover have "1 \<le> min 10 (max 1 \<lfloor>x + 1 / 2\<rfloor>)" "min 10 (max 1 \<lfloor>x + 1 / 2\<rfloor>) \<le> 10"
    by simp_all
  ultimately show ?thesis using Fin unfolding clampRounded_def by simp
next
  case PosInf
  then show ?thesis by (simp add: clampRounded_def)
next
  case NegInf
  then show ?thesis by (simp add: clampRounded_def)
next
  case NaN
  then show ?thesis by (simp add: clampRounded_def)
qed

lemma normalizeTask_bonus:
  "\<not> isCore t \<Longrightarrow> fst (normalizeTask t) = t\<lparr>points := Fin (clampRounded (Math_round (points t)))\<rparr>"
  by (simp add: normalizeTask_def Let_def)

lemma clamp_37: "clampRounded (Math_round (Fin 37)) = 10"
  by (simp add: clampRounded_def)

lemma loadTasks_fst:
  "fst (loadTasks st) =
     fst (limitPass 0 (snd (normalizePass False (arrayOrEmpty (safeJsonParse (getItem (items st) KEYS_tasks)))))
        (map (\<lambda>t. fst (normalizeTask t)) (arrayOrEmpty (safeJsonParse (getItem (items st) KEYS_tasks)))))"
  by (simp add: loadTasks_def Let_def split_beta normalizePass_fst)

lemma isCore_normalizeTask: "isCore (fst (normalizeTask t)) = isCore t"
  by (simp add: normalizeTask_def Let_def)

lemma loadTasks_core_points:
  assumes "t \<in> set (fst (loadTasks st))" and "isCore t"
  shows "points t = Fin 0"
proof -
  from assms have "t \<in> set (map (\<lambda>t. fst (normalizeTask t))
      (arrayOrEmpty (safeJsonParse (getItem (items st) KEYS_tasks))))"
    unfolding loadTasks_fst by (rule limitPass_isCore)
  then obtain t0 where t0: "t = fst (normalizeTask t0)" by auto
  with assms(2) have "isCore t0" by (simp add: isCore_normalizeTask)
  with t0 show ?thesis by (simp add: normalizeTask_core)
qed

lemma loadTasks_core_limit:
  "length (filter (\<lambda>t. isActive t \<and> isCore t) (fst (loadTasks st))) \<le> 5"
  unfolding loadTasks_fst using limitPass_core_count[of 0] by simp

lemma loadTasks_bonus_points:
  assumes "i < length (arrayOrEmpty (safeJsonParse (getItem (items st) KEYS_tasks)))"
    and "\<not> isCore (arrayOrEmpty (safeJsonParse (getItem (items st) KEYS_tasks)) ! i)"
  shows "\<exists>k::int. 1 \<le> k \<and> k \<le> 10 \<and>
           fst (loadTasks st) ! i =
             (arrayOrEmpty (safeJsonParse (getItem (items st) KEYS_tasks)) ! i)\<lparr>points := Fin (of_int k)\<rparr>"
proof -
  let ?stored = "arrayOrEmpty (safeJsonParse (getItem (items st) KEYS_tasks))"
  let ?norm = "map (\<lambda>t. fst (normalizeTask t)) ?stored"
  from assms have n: "?norm ! i = (?stored ! i)\<lparr>points := Fin (clampRounded (Math_round (points (?stored ! i))))\<rparr>"
    by (simp add: normalizeTask_bonus)
  with assms(2) have "\<not> isCore (?norm ! i)" by simp
  with assms(1) have "fst (loadTasks st) ! i = ?norm ! i"
    unfolding loadTasks_fst by (intro limitPass_not_core) simp_all
  with n clampRounded_int[of "points (?stored ! i)"] show ?thesis by auto
qed

lemma limitPass_fst_flag: "fst (limitPass n c ts) = fst (limitPass n c' ts)"
proof (induction ts arbitrary: n c c')
  case Nil
  show ?case by simp
next
  case (Cons t ts)
  from Cons[of "n + 1" True True] Cons[of "n + 1" c c'] Cons[of n c c']
  show ?case by (simp add: split_beta)
qed

text \<open>
  Claim C9, amended: the task list is persisted under the storage key \<open>tasks_v1\<close>.
  \<open>saveTasks\<close> writes the JSON array to that key and to no other, and what \<open>loadTasks\<close>
  returns is determined by the value under that key: the stored array, normalised.
\<close>

theorem saveTasks_key:
  "getItem (items (saveTasks tasks st)) ''tasks_v1'' = Some (JSON_stringify (JArr tasks)) \<and>
   (\<forall>k. k \<noteq> ''tasks_v1'' \<longrightarrow> getItem (items (saveTasks tasks st)) k = getItem (items st) k) \<and>
   (getItem (items st1) ''tasks_v1'' = getItem (items st2) ''tasks_v1'' \<longrightarrow>
      fst (loadTasks st1) = fst (loadTasks st2)) \<and>
   (getItem (items st) ''tasks_v1'' = Some (JSON_stringify (JArr tasks)) \<longrightarrow>
      fst (loadTasks st) = fst (limitPass 0 False (map (\<lambda>t. fst (normalizeTask t)) tasks)))"
  using limitPass_fst_flag[of 0 "snd (normalizePass False tasks)" _ False]
  by (simp add: saveTasks_def getItem_setItem KEYS_tasks_def loadTasks_fst JSON_stringify_def)

theorem saveTasks_key_witness:
  "getItem (items (saveTasks exampleTasks emptyStore)) ''tasks_v1'' = Some (Json (JArr exampleTasks)) \<and>
   getItem (items (saveTasks exampleTasks emptyStore)) ''tasks'' = getItem (items emptyStore) ''tasks'' \<and>
   fst (loadTasks (saveTasks exampleTasks emptyStore)) = exampleTasks"
proof -
  note t = saveTasks_key [of exampleTasks emptyStore "saveTasks exampleTasks emptyStore"
      "storeWithTasks exampleTasks"]
  have a: "getItem (items (storeWithTasks exampleTasks)) ''tasks_v1'' = Some (Json (JArr exampleTasks))"
    by (simp add: storeWithTasks_def getItem_def)
  have b: "fst (loadTasks (storeWithTasks exampleTasks)) = exampleTasks"
    by (simp add: loadTasks_def storeWithTasks_def exampleTasks_def getItem_def KEYS_tasks_def
        normalizeTask_def clampRounded_def)
  from t a b show ?thesis by (simp add: JSON_stringify_def)
qed

text \<open>
  Claim C9 as stated names the key \<open>tasks\<close>: \<open>saveTasks\<close> leaves that key absent, and
  \<open>loadTasks\<close> ignores an array stored under it.
\<close>

theorem tasks_key_counterexample:
  "getItem (items (saveTasks exampleTasks emptyStore)) ''tasks'' = None \<and>
   fst (loadTasks \<lparr>items = [(''tasks'', Json (JArr exampleTasks))], migratedOnce = False\<rparr>) = []"
  by (simp add: saveTasks_def emptyStore_def getItem_def setItem_def loadTasks_def KEYS_tasks_def)

section \<open>Migration: proofs\<close>




























lemma migrate_nothing:
  assumes "getItem (items st) KEYS_dayLogsV1 \<in> {None, Some Blank, Some Corrupt, Some (Json JPrim)}"
  shows "items (migrateV1ToV2IfNeeded st) = items st"
  using assms by (auto simp: migrateV1ToV2IfNeeded_def Let_def)

lemma migrate_legacy_gone:
  assumes "\<not> migratedOnce st"
    and "getItem (items st) KEYS_dayLogsV1 \<notin> {None, Some Blank, Some Corrupt, Some (Json JPrim)}"
  shows "getItem (items (migrateV1ToV2IfNeeded st)) KEYS_dayLogsV1 = None"
proof (cases "getItem (items st) KEYS_dayLogsV1")
  case None
  with assms(2) show ?thesis by simp
next
  case (Some r)
  show ?thesis
  proof (cases r)
    case Blank
    with Some assms(2) show ?thesis by simp
  next
    case Corrupt
    with Some assms(2) show ?thesis by simp
  next
    case (Json j)
    with Some assms show ?thesis
      by (cases j) (simp_all add: migrateV1ToV2IfNeeded_def Let_def getItem_removeItem)
  qed
qed

lemma migrate_fresh_twice:
  "items (migrateV1ToV2IfNeeded ((migrateV1ToV2IfNeeded (st\<lparr>migratedOnce := False\<rparr>))\<lparr>migratedOnce := False\<rparr>)) =
   items (migrateV1ToV2IfNeeded (st\<lparr>migratedOnce := False\<rparr>))"
proof (cases "getItem (items st) KEYS_dayLogsV1 \<in> {None, Some Blank, Some Corrupt, Some (Json JPrim)}")
  case True
  then have 1: "items (migrateV1ToV2IfNeeded (st\<lparr>migratedOnce := False\<rparr>)) = items st"
    using migrate_nothing[of "st\<lparr>migratedOnce := False\<rparr>"] by simp
  with True have "getItem (items ((migrateV1ToV2IfNeeded (st\<lparr>migratedOnce := False\<rparr>))\<lparr>migratedOnce := False\<rparr>))
      KEYS_dayLogsV1 \<in> {None, Some Blank, Some Corrupt, Some (Json JPrim)}" by simp
  from migrate_nothing[OF this] show ?thesis by simp
next
  case False
  then have "getItem (items (migrateV1ToV2IfNeeded (st\<lparr>migratedOnce := False\<rparr>))) KEYS_dayLogsV1 = None"
    using migrate_legacy_gone[of "st\<lparr>migratedOnce := False\<rparr>"] by simp
  then have "getItem (items ((migrateV1ToV2IfNeeded (st\<lparr>migratedOnce := False\<rparr>))\<lparr>migratedOnce := False\<rparr>))
      KEYS_dayLogsV1 \<in> {None, Some Blank, Some Corrupt, Some (Json JPrim)}" by simp
  from migrate_nothing[OF this] show ?thesis by simp
qed

text \<open>
  Claim C8. A second migration changes nothing: within a session the latch makes it the
  identity, and in a fresh session (latch reset) it leaves the storage as the first
  migration left it. A legacy blob that is absent, empty, unparseable or not an object
  leaves the storage unchanged.
\<close>

theorem migration_idempotent:
  "migrateV1ToV2IfNeeded (migrateV1ToV2IfNeeded st) = migrateV1ToV2IfNeeded st \<and>
   (migratedOnce st \<longrightarrow> migrateV1ToV2IfNeeded st = st) \<and>
   items (migrateV1ToV2IfNeeded
           ((migrateV1ToV2IfNeeded (st\<lparr>migratedOnce := False\<rparr>))\<lparr>migratedOnce := False\<rparr>)) =
     items (migrateV1ToV2IfNeeded (st\<lparr>migratedOnce := False\<rparr>)) \<and>
   (getItem (items st) KEYS_dayLogsV1 \<in> {None, Some Blank, Some Corrupt, Some (Json JPrim)} \<longrightarrow>
      items (migrateV1ToV2IfNeeded st) = items st)"
  using migrate_migrate[of st] migrate_latched[of st] migrate_fresh_twice[of st] migrate_nothing[of st]
  by blast

theorem migration_idempotent_witness:
  "migrateV1ToV2IfNeeded (migrateV1ToV2IfNeeded legacyStore) = migrateV1ToV2IfNeeded legacyStore \<and>
   items (migrateV1ToV2IfNeeded ((migrateV1ToV2IfNeeded legacyStore)\<lparr>migratedOnce := False\<rparr>)) =
     items (migrateV1ToV2IfNeeded legacyStore) \<and>
   items (migrateV1ToV2IfNeeded legacyStore) \<noteq> items legacyStore \<and>
   items (migrateV1ToV2IfNeeded \<lparr>items = [(''daylogs_v1'', Corrupt)], migratedOnce = False\<rparr>) =
     [(''daylogs_v1'', Corrupt)] \<and>
   items (migrateV1ToV2IfNeeded \<lparr>items = [(''daylogs_v1'', Blank)], migratedOnce = False\<rparr>) =
     [(''daylogs_v1'', Blank)] \<and>
   items (migrateV1ToV2IfNeeded emptyStore) = []"
proof -
  have f: "legacyStore\<lparr>migratedOnce := False\<rparr> = legacyStore" by (simp add: legacyStore_def)
  have g: "getItem (items legacyStore) ''daylogs_v1'' \<noteq> None"
    by (simp add: legacyStore_def getItem_def)
  have c: "getItem (items \<lparr>items = [(''daylogs_v1'', Corrupt)], migratedOnce = False\<rparr>) KEYS_dayLogsV1
      \<in> {None, Some Blank, Some Corrupt, Some (Json JPrim)}"
    by (simp add: getItem_def KEYS_dayLogsV1_def)
  have b: "getItem (items \<lparr>items = [(''daylogs_v1'', Blank)], migratedOnce = False\<rparr>) KEYS_dayLogsV1
      \<in> {None, Some Blank, Some Corrupt, Some (Json JPrim)}"
    by (simp add: getItem_def KEYS_dayLogsV1_def)
  have e: "getItem (items emptyStore) KEYS_dayLogsV1
      \<in> {None, Some Blank, Some Corrupt, Some (Json JPrim)}"
    by (simp add: getItem_def emptyStore_def)
  have n: "getItem (items (migrateV1ToV2IfNeeded legacyStore)) ''daylogs_v1'' = None"
    using migrate_legacy_gone[of legacyStore]
    by (simp add: legacyStore_def getItem_def KEYS_dayLogsV1_def)
  from g n have ne: "items (migrateV1ToV2IfNeeded legacyStore) \<noteq> items legacyStore" by auto
  note t = migration_idempotent [of legacyStore]
  from t have 1: "migrateV1ToV2IfNeeded (migrateV1ToV2IfNeeded legacyStore) = migrateV1ToV2IfNeeded legacyStore"
    by (rule conjunct1)
  from t have 2: "items (migrateV1ToV2IfNeeded ((migrateV1ToV2IfNeeded legacyStore)\<lparr>migratedOnce := False\<rparr>)) =
     items (migrateV1ToV2IfNeeded legacyStore)"
    unfolding f by (rule conjunct2[THEN conjunct2, THEN conjunct1])
  from migration_idempotent [of "\<lparr>items = [(''daylogs_v1'', Corrupt)], migratedOnce = False\<rparr>"] c
  have 3: "items (migrateV1ToV2IfNeeded \<lparr>items = [(''daylogs_v1'', Corrupt)], migratedOnce = False\<rparr>) =
     items \<lparr>items = [(''daylogs_v1'', Corrupt)], migratedOnce = False\<rparr>" by blast
  from migration_idempotent [of "\<lparr>items = [(''daylogs_v1'', Blank)], migratedOnce = False\<rparr>"] b
  have 4: "items (migrateV1ToV2IfNeeded \<lparr>items = [(''daylogs_v1'', Blank)], migratedOnce = False\<rparr>) =
     items \<lparr>items = [(''daylogs_v1'', Blank)], migratedOnce = False\<rparr>" by blast
  from migration_idempotent [of emptyStore] e
  have 5: "items (migrateV1ToV2IfNeeded emptyStore) = items emptyStore" by blast
  from 1 2 ne 3 4 5 show ?thesis by (simp add: emptyStore_def)
qed

subsection \<open>A legacy array\<close>

lemma showNat_small: "showNat 0 = ''0''" "showNat (Suc 0) = ''1''" "showNat 12 = ''12''"
  by (simp_all add: showNat.simps)

lemma upt_two: "[0..<length [a, b]] = [0, 1]"
  by (simp add: upt_conv_Cons)

lemma arrayIndexBucket_two: "arrayIndexBucket [a, b] = [(''0'', []), (''1'', [])]"
  by (simp only: arrayIndexBucket_def upt_two) (simp add: showNat_small toMonthISO_def)

text \<open>
  A legacy blob that is an array of two elements: the backup is written, the indices
  \<open>0\<close> and \<open>1\<close> are bucketed as months and written as shards, and the legacy key is
  removed.
\<close>

lemma migrate_legacy_array:
  "items (migrateV1ToV2IfNeeded legacyArrayStore) =
     [(''daylogs_v1_backup'', Json (JArr [coreTask ''a'', coreTask ''b''])),
      (''daylogs_v2_0'', Json (JObj [])), (''daylogs_v2_1'', Json (JObj []))] \<and>
   fst (listAvailableMonths legacyArrayStore) = [''1'', ''0'']"
  by (simp add: legacyArrayStore_def migrateV1ToV2IfNeeded_def Let_def getItem_def setItem_def
      removeItem_def KEYS_dayLogsV1_def KEYS_dayLogsV1Backup_def arrayIndexBucket_two
      mergeMonth_def loadMonthMap_def saveMonthMap_def v2Key_def V2_PREFIX_def spread_def
      JSON_stringify_def listAvailableMonths_def listV2Months_def startsWith_def)

end
